theory Spec2Isabelle
  imports Complex_Main "HOL-Library.AList"
begin

section \<open>Tensors as nested lists\<close>

text \<open>
  The notebook computes on NumPy and TensorFlow arrays. A rank-\<open>n\<close> array is a list nested
  \<open>n\<close> deep, read row-major; its entries are real numbers (the \<open>float32\<close> rounding of the
  backend is modelled where the mask term is added, and nowhere else). A nested list
  cannot record the trailing extents of an array with an empty leading axis, so statements
  about shapes are made for arrays with positive extents.
\<close>

type_synonym vec = "real list"
type_synonym matrix = "real list list"
type_synonym tensor3 = "real list list list"
type_synonym tensor4 = "real list list list list"

definition shape2 :: "'a list list \<Rightarrow> nat list" where
  "shape2 m = [length m, (case m of [] \<Rightarrow> 0 | r # _ \<Rightarrow> length r)]"

definition shape3 :: "'a list list list \<Rightarrow> nat list" where
  "shape3 t = length t # (case t of [] \<Rightarrow> [0, 0] | m # _ \<Rightarrow> shape2 m)"

definition shape4 :: "'a list list list list \<Rightarrow> nat list" where
  "shape4 t = length t # (case t of [] \<Rightarrow> [0, 0, 0] | m # _ \<Rightarrow> shape3 m)"

definition has_shape2 :: "'a list list \<Rightarrow> nat \<Rightarrow> nat \<Rightarrow> bool" where
  "has_shape2 m r c \<longleftrightarrow> length m = r \<and> list_all (\<lambda>row. length row = c) m"

definition has_shape3 :: "'a list list list \<Rightarrow> nat \<Rightarrow> nat \<Rightarrow> nat \<Rightarrow> bool" where
  "has_shape3 t b r c \<longleftrightarrow> length t = b \<and> list_all (\<lambda>m. has_shape2 m r c) t"

definition has_shape4 :: "'a list list list list \<Rightarrow> nat \<Rightarrow> nat \<Rightarrow> nat \<Rightarrow> nat \<Rightarrow> bool" where
  "has_shape4 t b h r c \<longleftrightarrow> length t = b \<and> list_all (\<lambda>m. has_shape3 m h r c) t"

section \<open>Positional encoding\<close>

text \<open>
  \<^verbatim>\<open>get_angles(pos, i, d)\<close> is called with \<open>pos\<close> a column \<open>(num_words, 1)\<close> and \<open>i\<close> a row
  \<open>(1, embed_dim)\<close>; broadcasting makes the result a \<open>(num_words, embed_dim)\<close> matrix.
  \<open>i // 2\<close> is integer division, the remaining \<open>/\<close> are true divisions and
  \<^verbatim>\<open>np.power\<close> with a fractional exponent is \<open>powr\<close>. The model is for \<open>d \<noteq> 0\<close> or an
  empty index row: with \<open>d = 0\<close> and indices NumPy divides by zero and the entries are
  \<open>nan\<close> or 0, which are not values of the model. \<open>get_positional_encodings\<close> passes
  the indices below \<open>embed_dim\<close>, so its index row is empty whenever \<open>embed_dim\<close> is not
  positive (lemma \<open>get_positional_encodings_no_features\<close>).
\<close>

definition get_angles :: "nat list \<Rightarrow> nat list \<Rightarrow> int \<Rightarrow> matrix" where
  "get_angles pos i d =
     map (\<lambda>p. map (\<lambda>j. real p / (10000 powr (real (2 * (j div 2)) / real_of_int d))) i) pos"

text \<open>The strided slice assignment \<^verbatim>\<open>a[0::2] = f(a[0::2])\<close> on one row.\<close>

fun assign_stride2 :: "('a \<Rightarrow> 'a) \<Rightarrow> 'a list \<Rightarrow> 'a list" where
  "assign_stride2 f [] = []"
| "assign_stride2 f [x] = [f x]"
| "assign_stride2 f (x # y # xs) = f x # y # assign_stride2 f xs"

text \<open>\<^verbatim>\<open>a[1::2] = f(a[1::2])\<close>: the same from index 1 on.\<close>

definition assign_stride2_from1 :: "('a \<Rightarrow> 'a) \<Rightarrow> 'a list \<Rightarrow> 'a list" where
  "assign_stride2_from1 f xs = (case xs of [] \<Rightarrow> [] | x # ys \<Rightarrow> x # assign_stride2 f ys)"

definition get_positional_encodings :: "int \<Rightarrow> int \<Rightarrow> tensor3" where
  "get_positional_encodings num_words embed_dim =
     (let angles_rad = get_angles [0..<nat num_words] [0..<nat embed_dim] embed_dim;
          angles_rad = map (assign_stride2 sin) angles_rad;
          angles_rad = map (assign_stride2_from1 cos) angles_rad;
          pos_encoding = [angles_rad]
      in pos_encoding)"

section \<open>Masking\<close>

text \<open>
  \<^verbatim>\<open>tf.math.equal(seq, 0)\<close> cast to float is 1 where the token id is 0 and 0 elsewhere;
  \<^verbatim>\<open>seq[:, tf.newaxis, tf.newaxis, :]\<close> wraps every row of the batch in two axes of
  extent 1.
\<close>

definition create_padding_mask :: "int list list \<Rightarrow> tensor4" where
  "create_padding_mask seq =
     (let seq = map (map (\<lambda>t. if t = 0 then (1::real) else 0)) seq
      in map (\<lambda>row. [[row]]) seq)"

text \<open>
  \<^verbatim>\<open>tf.linalg.band_part(input, num_lower, num_upper)\<close> keeps the entry at \<open>(m, n)\<close> when
  \<open>(num_lower < 0 || m - n <= num_lower) && (num_upper < 0 || n - m <= num_upper)\<close>
  and writes 0 elsewhere.
\<close>

definition in_band :: "int \<Rightarrow> int \<Rightarrow> nat \<Rightarrow> nat \<Rightarrow> bool" where
  "in_band num_lower num_upper m n \<longleftrightarrow>
     (num_lower < 0 \<or> int m - int n \<le> num_lower) \<and> (num_upper < 0 \<or> int n - int m \<le> num_upper)"

definition band_part :: "matrix \<Rightarrow> int \<Rightarrow> int \<Rightarrow> matrix" where
  "band_part a num_lower num_upper =
     map (\<lambda>(m, row). map (\<lambda>(n, x). if in_band num_lower num_upper m n then x else 0)
                          (enumerate 0 row))
         (enumerate 0 a)"

definition ones :: "nat \<Rightarrow> nat \<Rightarrow> matrix" where
  "ones r c = replicate r (replicate c 1)"

definition create_look_ahead_mask :: "nat \<Rightarrow> matrix" where
  "create_look_ahead_mask sz =
     (let mask = map (map (\<lambda>x. 1 - x)) (band_part (ones sz sz) (- 1) 0)
      in mask)"

section \<open>Array primitives of the backend\<close>

text \<open>
  The notebook calls NumPy, TensorFlow and Keras for elementwise arithmetic with
  broadcasting, matrix products, reshaping, transposition, softmax, dense layers, embedding
  lookup, layer normalisation and dropout. Each is modelled by its documented meaning on
  well-shaped arguments. Where the backend would reject ill-shaped arguments the model
  truncates (\<open>zip\<close>) instead; the theorems below assume well-shaped arguments.
\<close>

definition tmap3 :: "(real \<Rightarrow> real) \<Rightarrow> tensor3 \<Rightarrow> tensor3" where
  "tmap3 f = map (map (map f))"

definition tmap4 :: "(real \<Rightarrow> real) \<Rightarrow> tensor4 \<Rightarrow> tensor4" where
  "tmap4 f = map (map (map (map f)))"

text \<open>
  Broadcasting along one axis: an axis of extent 1 is stretched to the extent of the
  other operand.
\<close>

definition bmap2 :: "('a \<Rightarrow> 'b \<Rightarrow> 'c) \<Rightarrow> 'a list \<Rightarrow> 'b list \<Rightarrow> 'c list" where
  "bmap2 f xs ys =
     (if length xs = 1 \<and> length ys \<noteq> 1 then map (f (hd xs)) ys
      else if length ys = 1 \<and> length xs \<noteq> 1 then map (\<lambda>x. f x (hd ys)) xs
      else map2 f xs ys)"

definition badd3 :: "tensor3 \<Rightarrow> tensor3 \<Rightarrow> tensor3" where
  "badd3 = bmap2 (bmap2 (bmap2 (+)))"

text \<open>
  The arithmetic of the model is that of the real numbers, with one exception. Adding the
  mask term to the scores is the one place where \<open>float32\<close> rounding changes the result
  materially: a score added to \<open>-1e9\<close> is absorbed, since the neighbours of \<open>1e9\<close> in
  \<open>float32\<close> are 64 apart. That product and that sum are therefore rounded as IEEE 754
  does: to the nearest number of 24 significant bits (exponent not below \<open>-126\<close>), ties to
  the even one. Overflow to infinity, at magnitudes from \<open>2^128\<close>, is not modelled.
\<close>

definition round_half_even :: "real \<Rightarrow> int" where
  "round_half_even y =
     (let f = \<lfloor>y\<rfloor>; r = y - real_of_int f
      in if r < 1 / 2 then f else if 1 / 2 < r then f + 1 else if even f then f else f + 1)"

definition float32_round :: "real \<Rightarrow> real" where
  "float32_round x =
     (if x = 0 then 0
      else (let e = max \<lfloor>log 2 \<bar>x\<bar>\<rfloor> (- 126);
                u = 2 powr real_of_int (e - 23)
            in real_of_int (round_half_even (x / u)) * u))"

definition float32_add :: "real \<Rightarrow> real \<Rightarrow> real" where
  "float32_add x y = float32_round (x + y)"

definition float32_mul :: "real \<Rightarrow> real \<Rightarrow> real" where
  "float32_mul x y = float32_round (x * y)"

definition badd4_float32 :: "tensor4 \<Rightarrow> tensor4 \<Rightarrow> tensor4" where
  "badd4_float32 = bmap2 (bmap2 (bmap2 (bmap2 float32_add)))"

text \<open>\<^verbatim>\<open>tf.shape(x)[1]\<close> and \<^verbatim>\<open>tf.shape(k)[-1]\<close>.\<close>

definition dim1 :: "'a list list \<Rightarrow> nat" where
  "dim1 x = (case x of [] \<Rightarrow> 0 | r # _ \<Rightarrow> length r)"

definition last_dim4 :: "tensor4 \<Rightarrow> nat" where
  "last_dim4 k = (case k of [] \<Rightarrow> 0 | a # _ \<Rightarrow> (case a of [] \<Rightarrow> 0 | m # _ \<Rightarrow> dim1 m))"

definition dot :: "vec \<Rightarrow> vec \<Rightarrow> real" where
  "dot x y = sum_list (map2 (*) x y)"

definition matmul2 :: "matrix \<Rightarrow> matrix \<Rightarrow> matrix" where
  "matmul2 a b =
     map (\<lambda>row. map (\<lambda>j. sum_list (map2 (\<lambda>x brow. x * brow ! j) row b)) [0..<dim1 b]) a"

definition matmul2_transpose_b :: "matrix \<Rightarrow> matrix \<Rightarrow> matrix" where
  "matmul2_transpose_b a b = map (\<lambda>row. map (\<lambda>brow. dot row brow) b) a"

text \<open>\<^verbatim>\<open>tf.matmul\<close> on rank-4 arguments multiplies the matrices of the last two axes.\<close>

definition tf_matmul :: "tensor4 \<Rightarrow> tensor4 \<Rightarrow> bool \<Rightarrow> tensor4" where
  "tf_matmul a b transpose_b =
     map2 (map2 (if transpose_b then matmul2_transpose_b else matmul2)) a b"

definition softmax :: "vec \<Rightarrow> vec" where
  "softmax xs = (let es = map exp xs; s = sum_list es in map (\<lambda>e. e / s) es)"

fun chunks :: "nat \<Rightarrow> 'a list \<Rightarrow> 'a list list" where
  "chunks n xs = (if n = 0 \<or> xs = [] then [] else take n xs # chunks n (drop n xs))"

text \<open>
  \<^verbatim>\<open>tf.reshape(x, (batch_size, -1, h, d))\<close> and \<^verbatim>\<open>tf.reshape(x, (batch_size, -1, d))\<close>:
  the entries in row-major order, cut into the new extents; the extent written \<open>-1\<close> is
  what remains.
\<close>

definition reshape_b_h_d :: "tensor3 \<Rightarrow> nat \<Rightarrow> nat \<Rightarrow> nat \<Rightarrow> tensor4" where
  "reshape_b_h_d x batch_size h d =
     (let flat = concat (concat x);
          toks = chunks h (chunks d flat)
      in chunks (length toks div batch_size) toks)"

definition reshape_b_d :: "tensor4 \<Rightarrow> nat \<Rightarrow> nat \<Rightarrow> tensor3" where
  "reshape_b_d x batch_size d =
     (let flat = concat (concat (concat x));
          rows = chunks d flat
      in chunks (length rows div batch_size) rows)"

text \<open>\<^verbatim>\<open>tf.transpose(x, perm=[0, 2, 1, 3])\<close> swaps the two middle axes.\<close>

definition transpose_0213 :: "tensor4 \<Rightarrow> tensor4" where
  "transpose_0213 = map transpose"

subsection \<open>Keras layers\<close>

datatype error = AssertionError | ZeroDivisionError | ValueError

text \<open>A statement that may raise, followed by the rest of the block.\<close>

definition and_then :: "error + 'a \<Rightarrow> ('a \<Rightarrow> error + 'b) \<Rightarrow> error + 'b" where
  "and_then m f = (case m of Inl e \<Rightarrow> Inl e | Inr x \<Rightarrow> f x)"

datatype activation = Linear | Relu | Softmax

text \<open>
  A Keras layer is its configuration; the weights it learns are held apart, in a record of
  parameters handed to the forward pass. Keras creates the weights of a layer with the
  extents its configuration and its input require: a dense layer of \<open>units\<close> outputs has a
  kernel of \<open>units\<close> columns and a bias of \<open>units\<close> entries, and maps every vector of the
  last axis to \<open>units\<close> values.

  The constructors check their arguments as \<^verbatim>\<open>tf.keras\<close> 2.x does (the Keras of the
  notebook's Python 3.11): \<^verbatim>\<open>Dense(units)\<close> raises ValueError when \<open>units < 0\<close>,
  \<^verbatim>\<open>Embedding(input_dim, output_dim)\<close> when \<open>input_dim <= 0\<close> or \<open>output_dim <= 0\<close>,
  \<^verbatim>\<open>Dropout(rate)\<close> unless \<open>0 <= rate <= 1\<close>; \<^verbatim>\<open>LayerNormalization(epsilon)\<close> checks nothing
  of \<open>epsilon\<close>. The theorems about construction are stated for positive sizes, where
  every version of Keras accepts.
\<close>

record Dense =
  units :: int
  activation :: activation

record Dense_params =
  kernel :: matrix
  bias :: vec

definition Dense_init :: "int \<Rightarrow> activation \<Rightarrow> error + Dense" where
  "Dense_init n a = (if n < 0 then Inl ValueError else Inr \<lparr>units = n, activation = a\<rparr>)"

definition apply_activation :: "activation \<Rightarrow> vec \<Rightarrow> vec" where
  "apply_activation a xs =
     (case a of Linear \<Rightarrow> xs | Relu \<Rightarrow> map (\<lambda>x. max 0 x) xs | Softmax \<Rightarrow> softmax xs)"

definition Dense_call :: "Dense \<Rightarrow> Dense_params \<Rightarrow> tensor3 \<Rightarrow> tensor3" where
  "Dense_call self w x =
     map (map (\<lambda>row. apply_activation (activation self)
            (map (\<lambda>j. sum_list (map2 (\<lambda>xi krow. xi * krow ! j) row (kernel w)) + bias w ! j)
                 [0..<nat (units self)]))) x"

record Embedding =
  input_dim :: int
  output_dim :: int

definition Embedding_init :: "int \<Rightarrow> int \<Rightarrow> error + Embedding" where
  "Embedding_init n m =
     (if n \<le> 0 \<or> m \<le> 0 then Inl ValueError else Inr \<lparr>input_dim = n, output_dim = m\<rparr>)"

definition Embedding_call :: "Embedding \<Rightarrow> matrix \<Rightarrow> int list list \<Rightarrow> tensor3" where
  "Embedding_call self embeddings x = map (map (\<lambda>tok. embeddings ! nat tok)) x"

record LayerNormalization =
  epsilon :: real

record LayerNormalization_params =
  gamma :: vec
  beta :: vec

definition LayerNormalization_call ::
  "LayerNormalization \<Rightarrow> LayerNormalization_params \<Rightarrow> tensor3 \<Rightarrow> tensor3" where
  "LayerNormalization_call self w x =
     map (map (\<lambda>row.
       (let n = real (length row);
            mean = sum_list row / n;
            var = sum_list (map (\<lambda>v. (v - mean)\<^sup>2) row) / n
        in map (\<lambda>(v, g, b). (v - mean) / sqrt (var + epsilon self) * g + b)
               (zip row (zip (gamma w) (beta w)))))) x"

text \<open>
  Dropout is the identity outside training. In training the backend draws a keep-mask at
  random; the model takes the mask as an argument, so a statement for all masks holds for
  every draw.
\<close>

record Dropout =
  rate :: real

definition Dropout_init :: "real \<Rightarrow> error + Dropout" where
  "Dropout_init r = (if 0 \<le> r \<and> r \<le> 1 then Inr \<lparr>rate = r\<rparr> else Inl ValueError)"

type_synonym keep_mask = "nat \<Rightarrow> nat \<Rightarrow> nat \<Rightarrow> bool"

definition Dropout_call :: "Dropout \<Rightarrow> keep_mask \<Rightarrow> tensor3 \<Rightarrow> bool \<Rightarrow> tensor3" where
  "Dropout_call self keep x training =
     (if training
      then map (\<lambda>(i, m). map (\<lambda>(j, row). map (\<lambda>(c, v). if keep i j c then v / (1 - rate self) else 0)
                                              (enumerate 0 row))
                               (enumerate 0 m))
               (enumerate 0 x)
      else x)"

section \<open>Scaled dot-product attention\<close>

text \<open>
  The arguments are arrays of rank 4, \<open>(batch, heads, length, depth)\<close>, as multi-head
  attention passes them. Python's \<open>None\<close> for the mask is \<open>None\<close>; a mask is given with four
  axes, and one of lower rank (the look-ahead mask \<open>m\<close> of rank 2) is read as \<open>[[m]]\<close>, since
  broadcasting aligns the trailing axes and pads the leading ones with extent 1.
  The mask term is multiplied and added in \<open>float32\<close>; the rest is real arithmetic.
\<close>

definition scaled_dot_product_attention ::
  "tensor4 \<Rightarrow> tensor4 \<Rightarrow> tensor4 \<Rightarrow> tensor4 option \<Rightarrow> tensor4 \<times> tensor4" where
  "scaled_dot_product_attention q k v msk =
     (let score_matrix = tf_matmul q k True;
          dk = real (last_dim4 k);
          scaled_attention_scores = tmap4 (\<lambda>s. s / sqrt dk) score_matrix;
          scaled_attention_scores =
            (case msk of
               None \<Rightarrow> scaled_attention_scores
             | Some m \<Rightarrow>
                 badd4_float32 scaled_attention_scores
                   (tmap4 (\<lambda>x. float32_mul x (- 1000000000)) m));
          attention_weights = map (map (map softmax)) scaled_attention_scores;
          output = tf_matmul attention_weights v False
      in (output, attention_weights))"

section \<open>Multi-head attention\<close>

record MultiHeadAttention =
  mha_num_heads :: int
  mha_d_model :: int
  mha_depth :: int
  mha_wq :: Dense
  mha_wk :: Dense
  mha_wv :: Dense
  mha_dense :: Dense

record MultiHeadAttention_params =
  wq_params :: Dense_params
  wk_params :: Dense_params
  wv_params :: Dense_params
  dense_params :: Dense_params

text \<open>
  \<^verbatim>\<open>assert d_model % self.num_heads == 0\<close>: Python's \<open>%\<close> raises ZeroDivisionError on a
  zero divisor and otherwise agrees with \<open>mod\<close> on \<open>int\<close> (the sign of the divisor), as
  \<open>//\<close> agrees with \<open>div\<close>. The assertion comes before the four \<^verbatim>\<open>Dense(d_model)\<close>, each of
  which may raise in its turn.
\<close>

definition MultiHeadAttention_init :: "int \<Rightarrow> int \<Rightarrow> error + MultiHeadAttention" where
  "MultiHeadAttention_init d_model num_heads =
     (if num_heads = 0 then Inl ZeroDivisionError
      else if d_model mod num_heads \<noteq> 0 then Inl AssertionError
      else
        and_then (Dense_init d_model Linear) (\<lambda>wq.
        and_then (Dense_init d_model Linear) (\<lambda>wk.
        and_then (Dense_init d_model Linear) (\<lambda>wv.
        and_then (Dense_init d_model Linear) (\<lambda>dense.
          Inr \<lparr>mha_num_heads = num_heads, mha_d_model = d_model,
               mha_depth = d_model div num_heads,
               mha_wq = wq, mha_wk = wk, mha_wv = wv, mha_dense = dense\<rparr>)))))"

definition split_heads :: "MultiHeadAttention \<Rightarrow> tensor3 \<Rightarrow> nat \<Rightarrow> tensor4" where
  "split_heads self x batch_size =
     (let x = reshape_b_h_d x batch_size (nat (mha_num_heads self)) (nat (mha_depth self))
      in transpose_0213 x)"

text \<open>
  The parameters of \<^verbatim>\<open>call\<close> in the order the code declares them: \<open>v, k, q, mask\<close>.
  (The parameter \<open>mask\<close> is written \<open>msk\<close> throughout: \<open>mask\<close> is a constant of HOL.)
\<close>

definition MultiHeadAttention_call ::
  "MultiHeadAttention \<Rightarrow> MultiHeadAttention_params \<Rightarrow> tensor3 \<Rightarrow> tensor3 \<Rightarrow> tensor3
   \<Rightarrow> tensor4 option \<Rightarrow> tensor3 \<times> tensor4" where
  "MultiHeadAttention_call self w v k q msk =
     (let batch_size = length q;
          q = Dense_call (mha_wq self) (wq_params w) q;
          k = Dense_call (mha_wk self) (wk_params w) k;
          v = Dense_call (mha_wv self) (wv_params w) v;
          q = split_heads self q batch_size;
          k = split_heads self k batch_size;
          v = split_heads self v batch_size;
          (scaled_attention, attention_weights) = scaled_dot_product_attention q k v msk;
          scaled_attention = transpose_0213 scaled_attention;
          concat_attention = reshape_b_d scaled_attention batch_size (nat (mha_d_model self));
          output = Dense_call (mha_dense self) (dense_params w) concat_attention
      in (output, attention_weights))"

text \<open>
  The operation as the specification writes its contract,
  \<open>multi_head(query, key, value, mask)\<close>: three projections applied to query, key and value,
  split into heads, attention per head, heads concatenated, output projection.
\<close>

definition multi_head_contract ::
  "MultiHeadAttention \<Rightarrow> MultiHeadAttention_params \<Rightarrow> tensor3 \<Rightarrow> tensor3 \<Rightarrow> tensor3
   \<Rightarrow> tensor4 option \<Rightarrow> tensor3 \<times> tensor4" where
  "multi_head_contract self w query key val msk =
     (let batch_size = length query;
          qh = split_heads self (Dense_call (mha_wq self) (wq_params w) query) batch_size;
          kh = split_heads self (Dense_call (mha_wk self) (wk_params w) key) batch_size;
          vh = split_heads self (Dense_call (mha_wv self) (wv_params w) val) batch_size;
          (heads_out, weights) = scaled_dot_product_attention qh kh vh msk;
          concat_heads = reshape_b_d (transpose_0213 heads_out) batch_size (nat (mha_d_model self))
      in (Dense_call (mha_dense self) (dense_params w) concat_heads, weights))"

section \<open>Feed-forward network\<close>

text \<open>The \<^verbatim>\<open>Sequential\<close> model is the list of its layers.\<close>

definition FullyConnected :: "int \<Rightarrow> int \<Rightarrow> error + Dense list" where
  "FullyConnected embedding_dim fully_connected_dim =
     and_then (Dense_init fully_connected_dim Relu) (\<lambda>dense1.
     and_then (Dense_init embedding_dim Linear) (\<lambda>dense2.
       Inr [dense1, dense2]))"

fun Sequential_call :: "Dense list \<Rightarrow> Dense_params list \<Rightarrow> tensor3 \<Rightarrow> tensor3" where
  "Sequential_call (l # ls) (w # ws) x = Sequential_call ls ws (Dense_call l w x)"
| "Sequential_call _ _ x = x"

section \<open>Encoder\<close>

record EncoderLayer =
  el_mha :: MultiHeadAttention
  el_ffn :: "Dense list"
  el_layernorm1 :: LayerNormalization
  el_layernorm2 :: LayerNormalization
  el_dropout1 :: Dropout
  el_dropout2 :: Dropout


definition EncoderLayer_init :: "int \<Rightarrow> int \<Rightarrow> int \<Rightarrow> real \<Rightarrow> real \<Rightarrow> error + EncoderLayer" where
  "EncoderLayer_init embedding_dim num_heads fully_connected_dim dropout_rate layernorm_eps =
     and_then (MultiHeadAttention_init embedding_dim num_heads) (\<lambda>mha.
     and_then (FullyConnected embedding_dim fully_connected_dim) (\<lambda>ffn.
     and_then (Dropout_init dropout_rate) (\<lambda>dropout1.
     and_then (Dropout_init dropout_rate) (\<lambda>dropout2.
       Inr \<lparr>el_mha = mha,
            el_ffn = ffn,
            el_layernorm1 = \<lparr>epsilon = layernorm_eps\<rparr>,
            el_layernorm2 = \<lparr>epsilon = layernorm_eps\<rparr>,
            el_dropout1 = dropout1,
            el_dropout2 = dropout2\<rparr>))))"


text \<open>
  A list comprehension whose element expression may raise: the first error ends it.
\<close>

fun collect :: "(error + 'a) list \<Rightarrow> error + 'a list" where
  "collect [] = Inr []"
| "collect (r # rs) =
     (case r of
        Inl e \<Rightarrow> Inl e
      | Inr x \<Rightarrow> (case collect rs of Inl e \<Rightarrow> Inl e | Inr xs \<Rightarrow> Inr (x # xs)))"

record Encoder =
  enc_embedding_dim :: int
  enc_num_layers :: int
  enc_embedding :: Embedding
  enc_pos_encoding :: tensor3
  enc_layers :: "EncoderLayer list"
  enc_dropout :: Dropout


definition Encoder_init ::
  "int \<Rightarrow> int \<Rightarrow> int \<Rightarrow> int \<Rightarrow> int \<Rightarrow> int \<Rightarrow> real \<Rightarrow> real \<Rightarrow> error + Encoder" where
  "Encoder_init num_layers embedding_dim num_heads fully_connected_dim input_vocab_size
       maximum_position_encoding dropout_rate layernorm_eps =
     and_then (Embedding_init input_vocab_size embedding_dim) (\<lambda>embedding.
     and_then (collect (map (\<lambda>_. EncoderLayer_init embedding_dim num_heads fully_connected_dim
                                   dropout_rate layernorm_eps)
                            [0..<nat num_layers])) (\<lambda>layers.
     and_then (Dropout_init dropout_rate) (\<lambda>dropout.
       Inr \<lparr>enc_embedding_dim = embedding_dim,
            enc_num_layers = num_layers,
            enc_embedding = embedding,
            enc_pos_encoding = get_positional_encodings maximum_position_encoding embedding_dim,
            enc_layers = layers,
            enc_dropout = dropout\<rparr>)))"


section \<open>Decoder\<close>

record DecoderLayer =
  dl_mha1 :: MultiHeadAttention
  dl_mha2 :: MultiHeadAttention
  dl_ffn :: "Dense list"
  dl_layernorm1 :: LayerNormalization
  dl_layernorm2 :: LayerNormalization
  dl_layernorm3 :: LayerNormalization
  dl_dropout1 :: Dropout
  dl_dropout2 :: Dropout
  dl_dropout3 :: Dropout

record DecoderLayer_params =
  dl_mha1_params :: MultiHeadAttention_params
  dl_mha2_params :: MultiHeadAttention_params
  dl_ffn_params :: "Dense_params list"
  dl_layernorm1_params :: LayerNormalization_params
  dl_layernorm2_params :: LayerNormalization_params
  dl_layernorm3_params :: LayerNormalization_params
  dl_keep1 :: keep_mask
  dl_keep2 :: keep_mask
  dl_keep3 :: keep_mask

definition DecoderLayer_init :: "int \<Rightarrow> int \<Rightarrow> int \<Rightarrow> real \<Rightarrow> real \<Rightarrow> error + DecoderLayer" where
  "DecoderLayer_init embedding_dim num_heads fully_connected_dim dropout_rate layernorm_eps =
     and_then (MultiHeadAttention_init embedding_dim num_heads) (\<lambda>mha1.
     and_then (MultiHeadAttention_init embedding_dim num_heads) (\<lambda>mha2.
     and_then (FullyConnected embedding_dim fully_connected_dim) (\<lambda>ffn.
     and_then (Dropout_init dropout_rate) (\<lambda>dropout1.
     and_then (Dropout_init dropout_rate) (\<lambda>dropout2.
     and_then (Dropout_init dropout_rate) (\<lambda>dropout3.
       Inr \<lparr>dl_mha1 = mha1, dl_mha2 = mha2,
            dl_ffn = ffn,
            dl_layernorm1 = \<lparr>epsilon = layernorm_eps\<rparr>,
            dl_layernorm2 = \<lparr>epsilon = layernorm_eps\<rparr>,
            dl_layernorm3 = \<lparr>epsilon = layernorm_eps\<rparr>,
            dl_dropout1 = dropout1,
            dl_dropout2 = dropout2,
            dl_dropout3 = dropout3\<rparr>))))))"

definition DecoderLayer_call ::
  "DecoderLayer \<Rightarrow> DecoderLayer_params \<Rightarrow> tensor3 \<Rightarrow> tensor3 \<Rightarrow> bool \<Rightarrow> tensor4 option
   \<Rightarrow> tensor4 option \<Rightarrow> tensor3 \<times> tensor4 \<times> tensor4" where
  "DecoderLayer_call self w x enc_output training look_ahead_mask padding_mask =
     (let (attn1, attn_weights_block1) =
            MultiHeadAttention_call (dl_mha1 self) (dl_mha1_params w) x x x look_ahead_mask;
          attn1 = Dropout_call (dl_dropout1 self) (dl_keep1 w) attn1 training;
          out1 = LayerNormalization_call (dl_layernorm1 self) (dl_layernorm1_params w)
                   (badd3 attn1 x);
          (attn2, attn_weights_block2) =
            MultiHeadAttention_call (dl_mha2 self) (dl_mha2_params w) enc_output enc_output out1
              padding_mask;
          attn2 = Dropout_call (dl_dropout2 self) (dl_keep2 w) attn2 training;
          out2 = LayerNormalization_call (dl_layernorm2 self) (dl_layernorm2_params w)
                   (badd3 attn2 out1);
          ffn_output = Sequential_call (dl_ffn self) (dl_ffn_params w) out2;
          ffn_output = Dropout_call (dl_dropout3 self) (dl_keep3 w) ffn_output training;
          out3 = LayerNormalization_call (dl_layernorm3 self) (dl_layernorm3_params w)
                   (badd3 ffn_output out2)
      in (out3, attn_weights_block1, attn_weights_block2))"

text \<open>\<^verbatim>\<open>'{}'.format(n)\<close> for a non-negative integer: its decimal digits.\<close>

fun str_of_nat :: "nat \<Rightarrow> string" where
  "str_of_nat n =
     (if n < 10 then [''0123456789'' ! n]
      else str_of_nat (n div 10) @ [''0123456789'' ! (n mod 10)])"

definition block1_key :: "nat \<Rightarrow> string" where
  "block1_key n = ''decoder_layer'' @ str_of_nat n @ ''_block1_self_att''"

definition block2_key :: "nat \<Rightarrow> string" where
  "block2_key n = ''decoder_layer'' @ str_of_nat n @ ''_block2_decenc_att''"

record Decoder =
  dec_embedding_dim :: int
  dec_num_layers :: int
  dec_embedding :: Embedding
  dec_pos_encoding :: tensor3
  dec_layers :: "DecoderLayer list"
  dec_dropout :: Dropout

record Decoder_params =
  dec_embedding_params :: matrix
  dec_layers_params :: "DecoderLayer_params list"
  dec_keep :: keep_mask

definition Decoder_init ::
  "int \<Rightarrow> int \<Rightarrow> int \<Rightarrow> int \<Rightarrow> int \<Rightarrow> int \<Rightarrow> real \<Rightarrow> real \<Rightarrow> error + Decoder" where
  "Decoder_init num_layers embedding_dim num_heads fully_connected_dim target_vocab_size
       maximum_position_encoding dropout_rate layernorm_eps =
     and_then (Embedding_init target_vocab_size embedding_dim) (\<lambda>embedding.
     and_then (collect (map (\<lambda>_. DecoderLayer_init embedding_dim num_heads fully_connected_dim
                                   dropout_rate layernorm_eps)
                            [0..<nat num_layers])) (\<lambda>layers.
     and_then (Dropout_init dropout_rate) (\<lambda>dropout.
       Inr \<lparr>dec_embedding_dim = embedding_dim,
            dec_num_layers = num_layers,
            dec_embedding = embedding,
            dec_pos_encoding = get_positional_encodings maximum_position_encoding embedding_dim,
            dec_layers = layers,
            dec_dropout = dropout\<rparr>)))"

text \<open>
  The attention-weights dictionary is an association list in insertion order:
  assigning to a new key appends, assigning to a present key replaces the value in place
  (\<open>AList.update\<close>), as a Python \<open>dict\<close> does. \<open>Decoder_step\<close> is the body of the loop
  over the layers, on the pair of \<open>x\<close> and the dictionary; the loop is its \<open>foldl\<close> over
  \<open>range(num_layers)\<close>.
\<close>

definition Decoder_step ::
  "Decoder \<Rightarrow> Decoder_params \<Rightarrow> tensor3 \<Rightarrow> bool \<Rightarrow> tensor4 option \<Rightarrow> tensor4 option
   \<Rightarrow> tensor3 \<times> (string \<times> tensor4) list \<Rightarrow> nat \<Rightarrow> tensor3 \<times> (string \<times> tensor4) list" where
  "Decoder_step self w enc_output training look_ahead_mask padding_mask state i =
     (let (x, attention_weights) = state;
          (x, block1, block2) =
            DecoderLayer_call (dec_layers self ! i) (dec_layers_params w ! i) x enc_output training
              look_ahead_mask padding_mask;
          attention_weights = AList.update (block1_key (i + 1)) block1 attention_weights;
          attention_weights = AList.update (block2_key (i + 1)) block2 attention_weights
      in (x, attention_weights))"

definition Decoder_call ::
  "Decoder \<Rightarrow> Decoder_params \<Rightarrow> int list list \<Rightarrow> tensor3 \<Rightarrow> bool \<Rightarrow> tensor4 option
   \<Rightarrow> tensor4 option \<Rightarrow> tensor3 \<times> (string \<times> tensor4) list" where
  "Decoder_call self w x enc_output training look_ahead_mask padding_mask =
     (let seq_len = dim1 x;
          attention_weights = [];
          x = Embedding_call (dec_embedding self) (dec_embedding_params w) x;
          x = tmap3 (\<lambda>v. v * sqrt (real_of_int (dec_embedding_dim self))) x;
          x = badd3 x (map (take seq_len) (dec_pos_encoding self));
          x = Dropout_call (dec_dropout self) (dec_keep w) x training
      in foldl (Decoder_step self w enc_output training look_ahead_mask padding_mask)
               (x, attention_weights) [0..<nat (dec_num_layers self)])"

section \<open>Transformer\<close>

record Transformer =
  tr_encoder :: Encoder
  tr_decoder :: Decoder
  tr_final_layer :: Dense


definition Transformer_init ::
  "int \<Rightarrow> int \<Rightarrow> int \<Rightarrow> int \<Rightarrow> int \<Rightarrow> int \<Rightarrow> int \<Rightarrow> int \<Rightarrow> real \<Rightarrow> real \<Rightarrow> error + Transformer" where
  "Transformer_init num_layers embedding_dim num_heads fully_connected_dim input_vocab_size
       target_vocab_size max_positional_encoding_input max_positional_encoding_target
       dropout_rate layernorm_eps =
     and_then (Encoder_init num_layers embedding_dim num_heads fully_connected_dim
                 input_vocab_size max_positional_encoding_input dropout_rate layernorm_eps)
       (\<lambda>encoder.
     and_then (Decoder_init num_layers embedding_dim num_heads fully_connected_dim
                 target_vocab_size max_positional_encoding_target dropout_rate layernorm_eps)
       (\<lambda>decoder.
     and_then (Dense_init target_vocab_size Softmax) (\<lambda>final_layer.
       Inr \<lparr>tr_encoder = encoder, tr_decoder = decoder, tr_final_layer = final_layer\<rparr>)))"


section \<open>Auxiliary notions for the statements\<close>

text \<open>
  Reading an entry of an array that may be broadcast along an axis (extent 1), and the
  arrays that broadcast against a given shape.
\<close>

definition bnth :: "'a list \<Rightarrow> nat \<Rightarrow> 'a" where
  "bnth xs i = (if length xs = 1 then xs ! 0 else xs ! i)"

definition broadcastable2 :: "matrix \<Rightarrow> nat \<Rightarrow> nat \<Rightarrow> bool" where
  "broadcastable2 y r c \<longleftrightarrow>
     (length y = r \<or> length y = 1) \<and> list_all (\<lambda>z. length z = c \<or> length z = 1) y"

definition broadcastable3 :: "tensor3 \<Rightarrow> nat \<Rightarrow> nat \<Rightarrow> nat \<Rightarrow> bool" where
  "broadcastable3 x h r c \<longleftrightarrow>
     (length x = h \<or> length x = 1) \<and> list_all (\<lambda>y. broadcastable2 y r c) x"

definition broadcastable4 :: "tensor4 \<Rightarrow> nat \<Rightarrow> nat \<Rightarrow> nat \<Rightarrow> nat \<Rightarrow> bool" where
  "broadcastable4 m b h r c \<longleftrightarrow>
     (length m = b \<or> length m = 1) \<and> list_all (\<lambda>x. broadcastable3 x h r c) m"


definition masked_scores :: "tensor4 \<Rightarrow> tensor4 \<Rightarrow> tensor4 option \<Rightarrow> tensor4" where
  "masked_scores q k msk =
     (let s = tmap4 (\<lambda>s. s / sqrt (real (last_dim4 k))) (tf_matmul q k True)
      in case msk of
           None \<Rightarrow> s
         | Some m \<Rightarrow> badd4_float32 s (tmap4 (\<lambda>x. float32_mul x (- 1000000000)) m))"









text \<open>The keys of the attention-weights dictionary after \<open>n\<close> layers, in order.\<close>

definition weight_keys :: "nat \<Rightarrow> string list" where
  "weight_keys n = concat (map (\<lambda>i. [block1_key (i + 1), block2_key (i + 1)]) [0..<n])"

text \<open>
  Concrete configurations: an attention layer of one head on one feature with identity
  projections, and zero-initialised weights of the right extents for a whole model.
\<close>

definition unit_Dense_params :: Dense_params where
  "unit_Dense_params = \<lparr>kernel = [[1]], bias = [0]\<rparr>"

definition unit_MultiHeadAttention_params :: MultiHeadAttention_params where
  "unit_MultiHeadAttention_params =
     \<lparr>wq_params = unit_Dense_params, wk_params = unit_Dense_params,
      wv_params = unit_Dense_params, dense_params = unit_Dense_params\<rparr>"

definition unit_MultiHeadAttention :: MultiHeadAttention where
  "unit_MultiHeadAttention =
     \<lparr>mha_num_heads = 1, mha_d_model = 1, mha_depth = 1,
      mha_wq = \<lparr>units = 1, activation = Linear\<rparr>,
      mha_wk = \<lparr>units = 1, activation = Linear\<rparr>,
      mha_wv = \<lparr>units = 1, activation = Linear\<rparr>,
      mha_dense = \<lparr>units = 1, activation = Linear\<rparr>\<rparr>"

definition example_Dense_params :: "nat \<Rightarrow> nat \<Rightarrow> Dense_params" where
  "example_Dense_params din n = \<lparr>kernel = replicate din (replicate n 0), bias = replicate n 0\<rparr>"

definition example_LayerNormalization_params :: "nat \<Rightarrow> LayerNormalization_params" where
  "example_LayerNormalization_params d = \<lparr>gamma = replicate d 1, beta = replicate d 0\<rparr>"

definition example_MultiHeadAttention_params :: "nat \<Rightarrow> MultiHeadAttention_params" where
  "example_MultiHeadAttention_params d =
     \<lparr>wq_params = example_Dense_params d d, wk_params = example_Dense_params d d,
      wv_params = example_Dense_params d d, dense_params = example_Dense_params d d\<rparr>"


definition example_DecoderLayer_params :: "nat \<Rightarrow> nat \<Rightarrow> DecoderLayer_params" where
  "example_DecoderLayer_params d dff =
     \<lparr>dl_mha1_params = example_MultiHeadAttention_params d,
      dl_mha2_params = example_MultiHeadAttention_params d,
      dl_ffn_params = [example_Dense_params d dff, example_Dense_params dff d],
      dl_layernorm1_params = example_LayerNormalization_params d,
      dl_layernorm2_params = example_LayerNormalization_params d,
      dl_layernorm3_params = example_LayerNormalization_params d,
      dl_keep1 = (\<lambda>_ _ _. True), dl_keep2 = (\<lambda>_ _ _. True), dl_keep3 = (\<lambda>_ _ _. True)\<rparr>"

definition example_Decoder_params :: "nat \<Rightarrow> nat \<Rightarrow> nat \<Rightarrow> nat \<Rightarrow> Decoder_params" where
  "example_Decoder_params num_layers vocab d dff =
     \<lparr>dec_embedding_params = replicate vocab (replicate d 0),
      dec_layers_params = replicate num_layers (example_DecoderLayer_params d dff),
      dec_keep = (\<lambda>_ _ _. True)\<rparr>"



section \<open>Properties of the masks\<close>

lemma nth_enumerate0: "i < length xs \<Longrightarrow> enumerate 0 xs ! i = (i, xs ! i)"
  by (simp add: nth_enumerate_eq)

lemma band_part_ones_nth:
  assumes "i < r" and "j < c"
  shows "band_part (ones r c) lo up ! i ! j = (if in_band lo up i j then 1 else 0)"
  using assms by (simp add: band_part_def ones_def nth_enumerate_eq)

text \<open>
  C5. The look-ahead mask of a given size has 1 at \<open>(i, j)\<close> when \<open>j > i\<close> and 0 otherwise,
  and for size 3 it is \<open>[[0,1,1],[0,0,1],[0,0,0]]\<close>.
\<close>

theorem create_look_ahead_mask_entries:
  "(\<forall>i<sz. \<forall>j<sz. create_look_ahead_mask sz ! i ! j = (if j > i then 1 else 0))
   \<and> create_look_ahead_mask 3 = [[0, 1, 1], [0, 0, 1], [0, 0, 0]]"
proof
  show "\<forall>i<sz. \<forall>j<sz. create_look_ahead_mask sz ! i ! j = (if j > i then 1 else 0)"
  proof (intro allI impI)
    fix i j assume ij: "i < sz" "j < sz"
    have len: "length (band_part (ones sz sz) (- 1) 0) = sz"
      by (simp add: band_part_def ones_def)
    have row: "length (band_part (ones sz sz) (- 1) 0 ! i) = sz"
      using ij by (simp add: band_part_def ones_def nth_enumerate_eq)
    have "create_look_ahead_mask sz ! i ! j = 1 - band_part (ones sz sz) (- 1) 0 ! i ! j"
      using ij len row by (simp add: create_look_ahead_mask_def)
    also have "\<dots> = 1 - (if in_band (- 1) 0 i j then 1 else 0)"
      using ij by (simp add: band_part_ones_nth)
    also have "\<dots> = (if j > i then 1 else 0)"
      by (auto simp: in_band_def)
    finally show "create_look_ahead_mask sz ! i ! j = (if j > i then 1 else 0)" .
  qed
next
  have three: "(3::nat) = Suc (Suc (Suc 0))" by simp
  show "create_look_ahead_mask 3 = [[0, 1, 1], [0, 0, 1], [0, 0, 0]]"
    unfolding three
    by (simp add: create_look_ahead_mask_def band_part_def ones_def in_band_def)
qed

theorem create_look_ahead_mask_entries_witness:
  "create_look_ahead_mask 2 ! 0 ! 1 = 1 \<and> create_look_ahead_mask 2 ! 1 ! 0 = 0"
  using create_look_ahead_mask_entries [of 2] by simp


text \<open>
  C6. For a batch of token ids of shape \<open>(b, n)\<close> the padding mask has shape
  \<open>(b, 1, 1, n)\<close> and is 1 exactly at the positions whose token id is 0; the sequence
  \<open>[5, 7, 0, 0]\<close> gives \<open>[0, 0, 1, 1]\<close> with shape \<open>(1, 1, 1, 4)\<close>.
\<close>

theorem create_padding_mask_entries:
  assumes "has_shape2 seq b n"
  shows "has_shape4 (create_padding_mask seq) b 1 1 n
         \<and> (\<forall>bi<b. \<forall>j<n. create_padding_mask seq ! bi ! 0 ! 0 ! j
                            = (if seq ! bi ! j = 0 then 1 else 0))
         \<and> create_padding_mask [[5, 7, 0, 0]] = [[[[0, 0, 1, 1]]]]
         \<and> shape4 (create_padding_mask [[5, 7, 0, 0]]) = [1, 1, 1, 4]"
proof (intro conjI)
  from assms have len: "length seq = b" and rows: "\<forall>row\<in>set seq. length row = n"
    by (simp_all add: has_shape2_def list_all_iff)
  show "has_shape4 (create_padding_mask seq) b 1 1 n"
    using len rows
    by (simp add: create_padding_mask_def has_shape4_def has_shape3_def has_shape2_def
        list_all_iff)
  show "\<forall>bi<b. \<forall>j<n. create_padding_mask seq ! bi ! 0 ! 0 ! j
                        = (if seq ! bi ! j = 0 then 1 else 0)"
  proof (intro allI impI)
    fix bi j assume bi: "bi < b" and j: "j < n"
    from bi len rows have "length (seq ! bi) = n" by simp
    with bi j len show "create_padding_mask seq ! bi ! 0 ! 0 ! j
                        = (if seq ! bi ! j = 0 then 1 else 0)"
      by (simp add: create_padding_mask_def)
  qed
  show "create_padding_mask [[5, 7, 0, 0]] = [[[[0, 0, 1, 1]]]]"
    by (simp add: create_padding_mask_def)
  show "shape4 (create_padding_mask [[5, 7, 0, 0]]) = [1, 1, 1, 4]"
    by (simp add: create_padding_mask_def shape4_def shape3_def shape2_def)
qed

theorem create_padding_mask_entries_witness:
  "has_shape4 (create_padding_mask [[3, 0], [0, 9]]) 2 1 1 2
   \<and> create_padding_mask [[3, 0], [0, 9]] ! 1 ! 0 ! 0 ! 0 = 1
   \<and> create_padding_mask [[3, 0], [0, 9]] ! 1 ! 0 ! 0 ! 1 = 0"
proof -
  have h: "has_shape2 [[3, 0], [0, 9 :: int]] 2 2"
    by (simp add: has_shape2_def)
  from create_padding_mask_entries [OF h] show ?thesis by simp
qed

section \<open>Properties of the positional encoding\<close>

lemma length_assign_stride2 [simp]: "length (assign_stride2 f xs) = length xs"
  by (induction f xs rule: assign_stride2.induct) simp_all

lemma length_assign_stride2_from1 [simp]: "length (assign_stride2_from1 f xs) = length xs"
  by (simp add: assign_stride2_from1_def split: list.splits)

lemma nth_assign_stride2:
  "i < length xs \<Longrightarrow> assign_stride2 f xs ! i = (if even i then f (xs ! i) else xs ! i)"
proof (induction f xs arbitrary: i rule: assign_stride2.induct)
  case (3 f x y xs)
  show ?case
  proof (cases i)
    case 0
    then show ?thesis by simp
  next
    case (Suc k)
    show ?thesis
    proof (cases k)
      case 0
      with Suc show ?thesis by simp
    next
      case (Suc m)
      with \<open>i = Suc k\<close> "3.prems" have "m < length xs" by simp
      from "3.IH" [OF this] Suc \<open>i = Suc k\<close> show ?thesis by simp
    qed
  qed
qed simp_all

lemma nth_assign_stride2_from1:
  "i < length xs \<Longrightarrow> assign_stride2_from1 f xs ! i = (if odd i then f (xs ! i) else xs ! i)"
  by (cases xs; cases i) (simp_all add: assign_stride2_from1_def nth_assign_stride2)

lemma get_angles_shape:
  "length (get_angles pos i d) = length pos
   \<and> (\<forall>row\<in>set (get_angles pos i d). length row = length i)"
  by (simp add: get_angles_def)

lemma get_positional_encodings_no_features:
  "embed_dim \<le> 0 \<Longrightarrow>
   get_positional_encodings num_words embed_dim = [replicate (nat num_words) []]"
  by (simp add: get_positional_encodings_def get_angles_def assign_stride2_from1_def
      map_replicate_const)


text \<open>
  C3, as the code has it. The table is returned under a new leading axis
  (\<^verbatim>\<open>angles_rad[np.newaxis, ...]\<close>): for positive \<open>num_words\<close> its shape is
  \<open>(1, num_words, embed_dim)\<close>, a rank-3 array.
\<close>

theorem get_positional_encodings_shape:
  assumes "0 < num_words"
  shows "shape3 (get_positional_encodings num_words embed_dim) = [1, nat num_words, nat embed_dim]"
proof -
  from assms obtain k where k: "nat num_words = Suc k"
    by (cases "nat num_words") simp_all
  show ?thesis
    by (simp add: get_positional_encodings_def shape3_def shape2_def get_angles_def k upt_rec [of 0])
qed

theorem get_positional_encodings_shape_witness:
  "shape3 (get_positional_encodings 50 16) = [1, 50, 16]"
  using get_positional_encodings_shape [of 50 16] by simp

text \<open>
  C3, as the specification states it: a table of two dimensions \<open>(max_positions, feature_dim)\<close>.
  For 2 positions and 3 features the code returns shape \<open>(1, 2, 3)\<close>.
\<close>

theorem get_positional_encodings_rank2_counterexample:
  "shape3 (get_positional_encodings 2 3) = [1, 2, 3]
   \<and> shape3 (get_positional_encodings 2 3) \<noteq> [2, 3]"
proof -
  have "nat 2 = Suc (Suc 0)" by simp
  then have "shape3 (get_positional_encodings 2 3) = [1, 2, 3]"
    by (simp add: get_positional_encodings_def shape3_def shape2_def get_angles_def upt_rec [of 0])
  then show ?thesis by simp
qed

text \<open>
  C4. The entry for position \<open>p\<close> and dimension index \<open>i\<close> of the table (under its single
  leading index 0) is the sine of \<open>p / 10000^(2*floor(i/2)/embed_dim)\<close> for even \<open>i\<close> and the
  cosine for odd \<open>i\<close>. The table is a function of the two arguments alone: the code reads
  no state and draws no random number, so equal arguments give equal tables.
\<close>

theorem get_positional_encodings_entries:
  assumes "p < nat num_words" and "i < nat embed_dim"
  shows "get_positional_encodings num_words embed_dim ! 0 ! p ! i =
           (if even i
            then sin (real p / 10000 powr (real (2 * (i div 2)) / real_of_int embed_dim))
            else cos (real p / 10000 powr (real (2 * (i div 2)) / real_of_int embed_dim)))"
proof -
  let ?a = "get_angles [0..<nat num_words] [0..<nat embed_dim] embed_dim"
  have row: "?a ! p ! i = real p / 10000 powr (real (2 * (i div 2)) / real_of_int embed_dim)"
    using assms by (simp add: get_angles_def)
  have len: "length (?a ! p) = nat embed_dim"
    using assms by (simp add: get_angles_def)
  have "get_positional_encodings num_words embed_dim ! 0 ! p ! i
        = assign_stride2_from1 cos (assign_stride2 sin (?a ! p)) ! i"
    using assms by (simp add: get_positional_encodings_def get_angles_def)
  also have "\<dots> = (if odd i then cos (assign_stride2 sin (?a ! p) ! i)
                    else assign_stride2 sin (?a ! p) ! i)"
    using assms len by (simp add: nth_assign_stride2_from1)
  also have "\<dots> = (if even i then sin (?a ! p ! i) else cos (?a ! p ! i))"
    using assms len by (simp add: nth_assign_stride2)
  finally show ?thesis by (simp only: row)
qed

theorem get_positional_encodings_entries_witness:
  "get_positional_encodings 4 6 ! 0 ! 3 ! 2 = sin (3 / 10000 powr (2 / 6))
   \<and> get_positional_encodings 4 6 ! 0 ! 3 ! 5 = cos (3 / 10000 powr (4 / 6))"
  using get_positional_encodings_entries [of 3 4 2 6]
    get_positional_encodings_entries [of 3 4 5 6] by simp

section \<open>Construction of the attention layer\<close>

lemma MultiHeadAttention_init_zero_heads:
  "MultiHeadAttention_init d_model 0 = Inl ZeroDivisionError"
  by (simp add: MultiHeadAttention_init_def)

lemma MultiHeadAttention_init_negative:
  "d_model < 0 \<Longrightarrow> isl (MultiHeadAttention_init d_model num_heads)"
  by (simp add: MultiHeadAttention_init_def and_then_def Dense_init_def)





section \<open>Cutting lists into pieces and reshaping\<close>

declare chunks.simps [simp del]

lemma chunks_Nil [simp]: "chunks n [] = []"
  by (simp add: chunks.simps)

lemma chunks_zero [simp]: "chunks 0 xs = []"
  by (simp add: chunks.simps)






lemma has_shape2_iff:
  "has_shape2 m r c \<longleftrightarrow> length m = r \<and> (\<forall>row\<in>set m. length row = c)"
  by (simp add: has_shape2_def list_all_iff)

lemma has_shape3_iff:
  "has_shape3 t b r c \<longleftrightarrow> length t = b \<and> (\<forall>m\<in>set t. has_shape2 m r c)"
  by (simp add: has_shape3_def list_all_iff)

lemma has_shape4_iff:
  "has_shape4 t b h r c \<longleftrightarrow> length t = b \<and> (\<forall>m\<in>set t. has_shape3 m h r c)"
  by (simp add: has_shape4_def list_all_iff)





section \<open>Broadcasting, dot products and softmax\<close>

lemma has_shape2_nth:
  "has_shape2 m r c \<longleftrightarrow> length m = r \<and> (\<forall>i<r. length (m ! i) = c)"
  by (auto simp: has_shape2_def list_all_length)

lemma has_shape3_nth:
  "has_shape3 t b r c \<longleftrightarrow> length t = b \<and> (\<forall>i<b. has_shape2 (t ! i) r c)"
  by (auto simp: has_shape3_def list_all_length)




lemma bnth_same: "length xs \<noteq> 1 \<Longrightarrow> bnth xs i = xs ! i"
  by (simp add: bnth_def)




lemma length_softmax [simp]: "length (softmax xs) = length xs"
  by (simp add: softmax_def Let_def)







lemma has_shape2_broadcastable: "has_shape2 y r c \<Longrightarrow> broadcastable2 y r c"
  by (auto simp: has_shape2_iff broadcastable2_def list_all_iff)

lemma has_shape3_broadcastable: "has_shape3 x h r c \<Longrightarrow> broadcastable3 x h r c"
  by (auto simp: has_shape3_iff broadcastable3_def list_all_iff has_shape2_broadcastable)

lemma has_shape4_broadcastable: "has_shape4 m b h r c \<Longrightarrow> broadcastable4 m b h r c"
  by (auto simp: has_shape4_iff broadcastable4_def list_all_iff has_shape3_broadcastable)






lemma has_shape3_D:
  assumes "has_shape3 t h r c" and "hi < h" and "i < r"
  shows "length t = h" and "length (t ! hi) = r" and "length (t ! hi ! i) = c"
  using assms by (auto simp: has_shape3_nth has_shape2_nth)


section \<open>Matrix products\<close>


lemma has_shape2_D:
  assumes "has_shape2 m r c"
  shows "length m = r" and "\<And>i. i < r \<Longrightarrow> length (m ! i) = c"
  using assms by (simp_all add: has_shape2_nth)













lemma tmap4_shape [simp]: "has_shape4 (tmap4 f x) b h r c = has_shape4 x b h r c"
  by (simp add: has_shape4_iff has_shape3_iff has_shape2_iff tmap4_def)

lemma tmap4_broadcastable [simp]:
  "broadcastable4 (tmap4 f x) b h r c = broadcastable4 x b h r c"
  by (simp add: broadcastable4_def broadcastable3_def broadcastable2_def tmap4_def list_all_iff)





section \<open>Scaled dot-product attention\<close>

lemma scaled_dot_product_attention_unfold:
  "scaled_dot_product_attention q k v msk =
     (tf_matmul (map (map (map softmax)) (masked_scores q k msk)) v False,
      map (map (map softmax)) (masked_scores q k msk))"
  by (simp add: scaled_dot_product_attention_def masked_scores_def Let_def)




subsection \<open>The mask term in \<open>float32\<close>\<close>

lemma round_half_even_near:
  assumes "\<bar>t\<bar> < 1 / 2"
  shows "round_half_even (real_of_int n + t) = n"
proof (cases "0 \<le> t")
  case True
  with assms have f: "\<lfloor>real_of_int n + t\<rfloor> = n" by linarith
  show ?thesis using assms True by (simp add: round_half_even_def f Let_def)
next
  case False
  with assms have f: "\<lfloor>real_of_int n + t\<rfloor> = n - 1" by linarith
  show ?thesis using assms False by (simp add: round_half_even_def f Let_def)
qed

text \<open>
  Between \<open>2^29\<close> and \<open>2^30\<close> the numbers of \<open>float32\<close> are the multiples of 64, and
  \<open>1e9 = 15625000 * 64\<close> is one of them: a score below 32 in magnitude is absorbed.
\<close>

lemma float32_round_near_1e9:
  assumes "\<bar>s\<bar> < 32"
  shows "float32_round (s + (- 1000000000)) = - 1000000000"
proof -
  let ?x = "s + (- 1000000000)"
  have nz: "?x \<noteq> 0" using assms by linarith
  have ab: "\<bar>?x\<bar> = 1000000000 - s" using assms by linarith
  have p: "(2 :: real) powr real_of_int 29 = 536870912"
    "(2 :: real) powr real_of_int (29 + 1) = 1073741824"
    by (simp_all add: powr_realpow)
  have "2 powr real_of_int 29 \<le> \<bar>?x\<bar> \<and> \<bar>?x\<bar> < 2 powr real_of_int (29 + 1)"
    unfolding p ab using assms by linarith
  then have e: "\<lfloor>log 2 \<bar>?x\<bar>\<rfloor> = 29"
    using nz by (simp add: floor_log_eq_powr_iff)
  have u: "2 powr real_of_int (max 29 (- 126) - 23) = (64 :: real)"
    by (simp add: powr_realpow)
  have "?x / 64 = real_of_int (- 15625000) + s / 64" by simp
  moreover have "\<bar>s / 64\<bar> < 1 / 2" using assms by simp
  ultimately have r: "round_half_even (?x / 64) = - 15625000"
    using round_half_even_near by metis
  show ?thesis
    unfolding float32_round_def Let_def e u r using nz by simp
qed

lemma float32_mul_1e9:
  "float32_mul 0 (- 1000000000) = 0" "float32_mul 1 (- 1000000000) = - 1000000000"
proof -
  show "float32_mul 0 (- 1000000000) = 0" by (simp add: float32_mul_def float32_round_def)
  have "float32_round (0 + (- 1000000000)) = - 1000000000"
    by (rule float32_round_near_1e9) simp
  then show "float32_mul 1 (- 1000000000) = - 1000000000" by (simp add: float32_mul_def)
qed

lemma float32_add_absorbed:
  "\<bar>s\<bar> < 32 \<Longrightarrow> float32_add s (- 1000000000) = - 1000000000"
  unfolding float32_add_def by (rule float32_round_near_1e9)

text \<open>
  A query whose keys are all masked attends to them uniformly: the scores \<open>1 / sqrt 2\<close>
  and \<open>0\<close> both become \<open>-1e9\<close>.
\<close>

lemma fully_masked_row_uniform:
  "scaled_dot_product_attention [[[[1, 0]]]] [[[[1, 0], [0, 1]]]] [[[[5], [7]]]]
     (Some [[[[1, 1]]]]) = ([[[[6]]]], [[[[1 / 2, 1 / 2]]]])"
proof -
  have a: "float32_add (1 / sqrt 2) (- 1000000000) = - 1000000000"
  proof (rule float32_add_absorbed)
    have "1 \<le> sqrt 2" by simp
    then have "0 \<le> 1 / sqrt 2" and "1 / sqrt 2 \<le> 1" by (simp_all add: field_simps)
    then show "\<bar>1 / sqrt 2\<bar> < 32" by linarith
  qed
  have b: "float32_add 0 (- 1000000000) = - 1000000000"
    by (rule float32_add_absorbed) simp
  show ?thesis
    by (simp add: scaled_dot_product_attention_def tf_matmul_def matmul2_transpose_b_def
        matmul2_def dot_def last_dim4_def dim1_def tmap4_def badd4_float32_def bmap2_def
        softmax_def float32_mul_1e9 a b Let_def)
qed



section \<open>Shapes through the layers\<close>

lemma length_apply_activation [simp]: "length (apply_activation a xs) = length xs"
  by (cases a) (simp_all add: apply_activation_def)



lemma tmap3_shape [simp]: "has_shape3 (tmap3 f x) b l d = has_shape3 x b l d"
  by (simp add: has_shape3_iff has_shape2_iff tmap3_def)



















lemma collect_map_const_Inr:
  "collect (map (\<lambda>_. r) xs) = Inr ls \<Longrightarrow> length ls = length xs \<and> (\<forall>l\<in>set ls. r = Inr l)"
  by (induction xs arbitrary: ls) (auto split: sum.splits)

lemma collect_map_const_Inl:
  "xs \<noteq> [] \<Longrightarrow> collect (map (\<lambda>_. Inl e) xs) = Inl e"
  by (cases xs) simp_all


lemma Decoder_init_Inr:
  assumes "Decoder_init L dm nh dff vocab mp dr eps = Inr self"
  shows "dec_embedding_dim self = dm" and "dec_num_layers self = L"
    and "dec_pos_encoding self = get_positional_encodings mp dm"
    and "length (dec_layers self) = nat L"
    and "\<And>layer. layer \<in> set (dec_layers self) \<Longrightarrow> DecoderLayer_init dm nh dff dr eps = Inr layer"
  using assms collect_map_const_Inr [of "DecoderLayer_init dm nh dff dr eps" "[0..<nat L]"]
  by (auto simp: Decoder_init_def and_then_def split: sum.splits)




section \<open>Keys of the attention-weights dictionary\<close>

declare str_of_nat.simps [simp del]

lemma str_of_nat_nonempty: "str_of_nat n \<noteq> []"
  by (subst str_of_nat.simps) simp

lemma digit_inj:
  assumes "a < 10" and "b < 10" and "''0123456789'' ! a = ''0123456789'' ! b"
  shows "a = b"
proof -
  have "distinct ''0123456789''" by simp
  moreover have "a < length ''0123456789''" "b < length ''0123456789''"
    using assms by simp_all
  ultimately show ?thesis using assms(3) by (simp only: nth_eq_iff_index_eq)
qed

lemma str_of_nat_inj: "str_of_nat n = str_of_nat m \<Longrightarrow> n = m"
proof (induction n arbitrary: m rule: str_of_nat.induct)
  case (1 n)
  show ?case
  proof (cases "n < 10")
    case small: True
    show ?thesis
    proof (cases "m < 10")
      case True
      with small "1.prems" digit_inj show ?thesis
        by (simp add: str_of_nat.simps [of n] str_of_nat.simps [of m])
    next
      case False
      with small "1.prems" str_of_nat_nonempty [of "m div 10"] show ?thesis
        by (simp add: str_of_nat.simps [of n] str_of_nat.simps [of m])
    qed
  next
    case big: False
    show ?thesis
    proof (cases "m < 10")
      case True
      with big "1.prems" str_of_nat_nonempty [of "n div 10"] show ?thesis
        by (simp add: str_of_nat.simps [of n] str_of_nat.simps [of m])
    next
      case False
      with big "1.prems" have pre: "str_of_nat (n div 10) = str_of_nat (m div 10)"
        and dig: "''0123456789'' ! (n mod 10) = ''0123456789'' ! (m mod 10)"
        by (simp_all add: str_of_nat.simps [of n] str_of_nat.simps [of m])
      from "1.IH" [OF big pre] have "n div 10 = m div 10" .
      moreover from digit_inj [OF _ _ dig] have "n mod 10 = m mod 10" by simp
      ultimately show ?thesis by (metis div_mult_mod_eq)
    qed
  qed
qed

lemma block1_key_inj: "block1_key a = block1_key b \<Longrightarrow> a = b"
  by (simp add: block1_key_def str_of_nat_inj del: append_assoc)

lemma block2_key_inj: "block2_key a = block2_key b \<Longrightarrow> a = b"
  by (simp add: block2_key_def str_of_nat_inj)

lemma block1_key_neq_block2_key: "block1_key a \<noteq> block2_key b"
proof
  assume "block1_key a = block2_key b"
  then have "rev (block1_key a) = rev (block2_key b)" by simp
  then show False by (simp add: block1_key_def block2_key_def)
qed

lemma weight_keys_Suc:
  "weight_keys (Suc n) = weight_keys n @ [block1_key (n + 1), block2_key (n + 1)]"
  by (simp add: weight_keys_def)

lemma weight_keys_set:
  "set (weight_keys n) = (\<Union>i\<in>{..<n}. {block1_key (i + 1), block2_key (i + 1)})"
  by (auto simp: weight_keys_def)

lemma length_weight_keys: "length (weight_keys n) = 2 * n"
  by (induction n) (simp_all add: weight_keys_Suc, simp add: weight_keys_def)

lemma Decoder_step_keys:
  assumes "map fst (snd state) = weight_keys n"
  shows "map fst (snd (Decoder_step self w enc_output training lm pm state n)) = weight_keys (Suc n)"
proof -
  obtain x aw where st: "state = (x, aw)" by (cases state)
  with assms have aw: "map fst aw = weight_keys n" by simp
  have k1: "block1_key (n + 1) \<notin> set (map fst aw)"
    unfolding aw weight_keys_set
    using block1_key_inj [of "n + 1"] block1_key_neq_block2_key [of "n + 1"] by fastforce
  have k2: "block2_key (n + 1) \<notin> set (map fst aw @ [block1_key (n + 1)])"
    unfolding aw using block2_key_inj [of "n + 1"] block1_key_neq_block2_key [of _ "n + 1"]
    by (fastforce simp: weight_keys_set)
  show ?thesis
    using k1 k2
    by (simp add: Decoder_step_def st Let_def split_beta update_keys aw weight_keys_Suc)
qed

lemma Decoder_fold_keys:
  "map fst (snd (foldl (Decoder_step self w enc_output training lm pm) (x0, []) [0..<n]))
     = weight_keys n"
proof (induction n)
  case 0
  show ?case by (simp add: weight_keys_def)
next
  case (Suc n)
  from Decoder_step_keys [OF Suc] show ?case by simp
qed

section \<open>Decoder stack and Transformer\<close>







section \<open>Argument order of multi-head attention\<close>

text \<open>
  C2, as the code has it. \<^verbatim>\<open>call(self, v, k, q, mask)\<close> takes the value first and the query
  third: it is the contract operation \<open>multi_head(query, key, value, mask)\<close> applied to
  its third, second and first argument. So \<open>wv\<close> is applied to the first argument, \<open>wk\<close>
  to the second and \<open>wq\<close> to the third; the attention weights, which the query and the key
  determine, do not depend on the first argument.
\<close>

theorem MultiHeadAttention_call_order:
  "MultiHeadAttention_call self w v k q msk = multi_head_contract self w q k v msk
   \<and> snd (MultiHeadAttention_call self w v k q msk)
       = snd (MultiHeadAttention_call self w v' k q msk)"
proof
  show "MultiHeadAttention_call self w v k q msk = multi_head_contract self w q k v msk"
    by (simp add: MultiHeadAttention_call_def multi_head_contract_def Let_def split_beta)
next
  let ?qh = "split_heads self (Dense_call (mha_wq self) (wq_params w) q) (length q)"
  let ?kh = "split_heads self (Dense_call (mha_wk self) (wk_params w) k) (length q)"
  have "snd (MultiHeadAttention_call self w u k q msk)
          = map (map (map softmax)) (masked_scores ?qh ?kh msk)" for u
    by (simp add: MultiHeadAttention_call_def Let_def split_beta
        scaled_dot_product_attention_unfold)
  then show "snd (MultiHeadAttention_call self w v k q msk)
               = snd (MultiHeadAttention_call self w v' k q msk)"
    by simp
qed

lemma unit_init: "MultiHeadAttention_init 1 1 = Inr unit_MultiHeadAttention"
  by (simp add: MultiHeadAttention_init_def and_then_def Dense_init_def
      unit_MultiHeadAttention_def)

lemma chunks_single [simp]: "chunks (Suc 0) [x] = [[x]]"
  by (simp add: chunks.simps)

lemma unit_Dense [simp]:
  "Dense_call \<lparr>units = 1, activation = Linear\<rparr> unit_Dense_params [[[x]]] = [[[x]]]"
  by (simp add: Dense_call_def unit_Dense_params_def apply_activation_def)

lemma unit_split [simp]: "split_heads unit_MultiHeadAttention [[[x]]] (Suc 0) = [[[[x]]]]"
  by (simp add: split_heads_def unit_MultiHeadAttention_def reshape_b_h_d_def transpose_0213_def)

lemma unit_attention [simp]:
  "scaled_dot_product_attention [[[[x]]]] [[[[y]]]] [[[[z]]]] None = ([[[[z]]]], [[[[1]]]])"
  by (simp add: scaled_dot_product_attention_def tf_matmul_def matmul2_transpose_b_def
      matmul2_def dot_def last_dim4_def dim1_def tmap4_def softmax_def Let_def)

lemma unit_fields [simp]:
  "mha_wq unit_MultiHeadAttention = \<lparr>units = 1, activation = Linear\<rparr>"
  "mha_wk unit_MultiHeadAttention = \<lparr>units = 1, activation = Linear\<rparr>"
  "mha_wv unit_MultiHeadAttention = \<lparr>units = 1, activation = Linear\<rparr>"
  "mha_dense unit_MultiHeadAttention = \<lparr>units = 1, activation = Linear\<rparr>"
  "mha_d_model unit_MultiHeadAttention = 1"
  by (simp_all add: unit_MultiHeadAttention_def)

lemma unit_concat [simp]: "reshape_b_d (transpose_0213 [[[[z]]]]) (Suc 0) (Suc 0) = [[[z]]]"
  by (simp add: transpose_0213_def reshape_b_d_def)

lemma unit_contract:
  "multi_head_contract unit_MultiHeadAttention unit_MultiHeadAttention_params
     [[[x]]] [[[y]]] [[[z]]] None = ([[[z]]], [[[[1]]]])"
  by (simp add: multi_head_contract_def unit_MultiHeadAttention_params_def Let_def)

text \<open>
  C2, as the specification states it, would make \<^verbatim>\<open>call\<close> agree with the contract
  operation on the same positional arguments. With one head, one feature, identity
  projections, first argument 1 and third argument 2 the code returns the first argument
  (it is the value) where the contract order returns the third.
\<close>

theorem MultiHeadAttention_call_order_counterexample:
  "MultiHeadAttention_call unit_MultiHeadAttention unit_MultiHeadAttention_params
     [[[1]]] [[[1]]] [[[2]]] None = ([[[1]]], [[[[1]]]])
   \<and> multi_head_contract unit_MultiHeadAttention unit_MultiHeadAttention_params
     [[[1]]] [[[1]]] [[[2]]] None = ([[[2]]], [[[[1]]]])
   \<and> MultiHeadAttention_call unit_MultiHeadAttention unit_MultiHeadAttention_params
     [[[1]]] [[[1]]] [[[2]]] None
     \<noteq> multi_head_contract unit_MultiHeadAttention unit_MultiHeadAttention_params
         [[[1]]] [[[1]]] [[[2]]] None"
proof -
  have code: "MultiHeadAttention_call unit_MultiHeadAttention unit_MultiHeadAttention_params
          [[[1]]] [[[1]]] [[[2]]] None = ([[[1]]], [[[[1]]]])"
    by (simp add: MultiHeadAttention_call_def unit_MultiHeadAttention_params_def Let_def)
  have contract: "multi_head_contract unit_MultiHeadAttention unit_MultiHeadAttention_params
          [[[1]]] [[[1]]] [[[2]]] None = ([[[2]]], [[[[1]]]])"
    by (rule unit_contract)
  show ?thesis by (simp add: code contract)
qed

section \<open>A concrete model\<close>








lemma distinct_weight_keys: "distinct (weight_keys n)"
proof (induction n)
  case 0
  show ?case by (simp add: weight_keys_def)
next
  case (Suc n)
  have k1: "block1_key (n + 1) \<notin> set (weight_keys n)"
    unfolding weight_keys_set
    using block1_key_inj [of "n + 1"] block1_key_neq_block2_key [of "n + 1"] by fastforce
  have k2: "block2_key (n + 1) \<notin> set (weight_keys n)"
    unfolding weight_keys_set
    using block2_key_inj [of "n + 1"] block1_key_neq_block2_key [of _ "n + 1"] by fastforce
  from Suc k1 k2 block1_key_neq_block2_key [of "n + 1" "n + 1"] show ?case
    by (simp add: weight_keys_Suc)
qed

text \<open>
  C9. The attention-weights dictionary returned by a decoder of \<open>num_layers\<close> layers has
  \<open>2 * num_layers\<close> entries under distinct keys, in the order layer 1 block 1
  (self-attention), layer 1 block 2 (encoder-decoder attention), layer 2 block 1, and so on.
\<close>

theorem Decoder_call_attention_weights_order:
  assumes "Decoder_init num_layers dm nh dff vocab mp dr eps = Inr self"
  shows "map fst (snd (Decoder_call self w x enc_output training look_ahead_mask padding_mask))
           = weight_keys (nat num_layers)
         \<and> length (snd (Decoder_call self w x enc_output training look_ahead_mask padding_mask))
           = 2 * nat num_layers
         \<and> distinct (map fst (snd (Decoder_call self w x enc_output training look_ahead_mask
                                     padding_mask)))"
proof -
  let ?aw = "snd (Decoder_call self w x enc_output training look_ahead_mask padding_mask)"
  have keys: "map fst ?aw = weight_keys (nat num_layers)"
    using Decoder_init_Inr(2) [OF assms]
    by (simp add: Decoder_call_def Let_def Decoder_fold_keys)
  have "length ?aw = length (map fst ?aw)" by simp
  also have "\<dots> = 2 * nat num_layers" by (simp only: keys length_weight_keys)
  finally have len: "length ?aw = 2 * nat num_layers" .
  from keys len distinct_weight_keys [of "nat num_layers"] show ?thesis by simp
qed

lemma weight_keys_2:
  "weight_keys 2 = [''decoder_layer1_block1_self_att'', ''decoder_layer1_block2_decenc_att'',
                    ''decoder_layer2_block1_self_att'', ''decoder_layer2_block2_decenc_att'']"
proof -
  have "[0..<2] = [0, Suc 0]" by (simp add: upt_rec)
  then show ?thesis
    by (simp add: weight_keys_def block1_key_def block2_key_def str_of_nat.simps)
qed

text \<open>
  A decoder of two layers: the four keys in order.
\<close>

theorem Decoder_call_attention_weights_order_witness:
  "\<exists>self. Decoder_init 2 8 2 16 120 10 (1/10) (1/1000000) = Inr self
     \<and> map fst (snd (Decoder_call self (example_Decoder_params 2 120 8 16) [[1, 2, 3]]
                       (replicate 1 (replicate 4 (replicate 8 0))) False None None))
       = [''decoder_layer1_block1_self_att'', ''decoder_layer1_block2_decenc_att'',
          ''decoder_layer2_block1_self_att'', ''decoder_layer2_block2_decenc_att'']"
proof -
  have "\<exists>self. Decoder_init 2 8 2 16 120 10 (1/10) (1/1000000) = Inr self"
    by (simp add: Decoder_init_def DecoderLayer_init_def MultiHeadAttention_init_def
        FullyConnected_def and_then_def Dense_init_def Embedding_init_def Dropout_init_def
        upt_rec)
  then obtain self where init: "Decoder_init 2 8 2 16 120 10 (1/10) (1/1000000) = Inr self" ..
  from Decoder_call_attention_weights_order [OF init] init show ?thesis
    by (simp add: weight_keys_2)
qed




text \<open>
  Whatever the sizes, an empty stack never fails by the divisibility assertion (nor by
  the division by a zero head count): the only failures left are the constructors'
  ValueError.
\<close>

lemma empty_stack_no_assertion:
  "Encoder_init 0 embedding_dim num_heads fully_connected_dim input_vocab_size
     maximum_position_encoding dropout_rate layernorm_eps
     \<notin> {Inl AssertionError, Inl ZeroDivisionError}"
  "Decoder_init 0 embedding_dim num_heads fully_connected_dim target_vocab_size
     maximum_position_encoding dropout_rate layernorm_eps
     \<notin> {Inl AssertionError, Inl ZeroDivisionError}"
  "Transformer_init 0 embedding_dim num_heads fully_connected_dim input_vocab_size
     target_vocab_size max_positional_encoding_input max_positional_encoding_target
     dropout_rate layernorm_eps
     \<notin> {Inl AssertionError, Inl ZeroDivisionError}"
  by (simp_all add: Encoder_init_def Decoder_init_def Transformer_init_def and_then_def
      Embedding_init_def Dropout_init_def Dense_init_def)

lemma Encoder_init_not_divisible:
  assumes "0 < num_layers" and "num_heads \<noteq> 0" and "\<not> num_heads dvd embedding_dim"
    and "0 < input_vocab_size" and "0 < embedding_dim"
  shows "Encoder_init num_layers embedding_dim num_heads fully_connected_dim input_vocab_size
           maximum_position_encoding dropout_rate layernorm_eps = Inl AssertionError"
proof -
  have "EncoderLayer_init embedding_dim num_heads fully_connected_dim dropout_rate layernorm_eps
          = Inl AssertionError"
    using assms
    by (simp add: EncoderLayer_init_def MultiHeadAttention_init_def and_then_def
        mod_eq_0_iff_dvd)
  moreover have "[0..<nat num_layers] \<noteq> []" using assms(1) by simp
  ultimately show ?thesis
    using assms(4,5)
    by (simp add: Encoder_init_def and_then_def Embedding_init_def collect_map_const_Inl)
qed

end
